theory Spec2Isabelle
  imports Main "HOL-Library.Word"
begin

unbundle bit_operations_syntax

section \<open>Host values, raised errors and results\<close>

text \<open>
  The host-language values that cross the binding's call boundary. A string carries the
  bytes that the C API sees (a NUL-terminated C string); a function, a userdata and a
  table are named by an identity. A userdata of this binding points at one native handle.
\<close>

datatype lua_value =
    LNil
  | LBoolean bool
  | LInteger int
  | LString string
  | LFunction nat
  | LUserdata nat
  | LTable nat

text \<open>
  An entry point either raises (\<open>luaL_argerror\<close> and friends unwind to the caller; an
  \<open>assert\<close> that fails or a read through a dangling pointer is \<open>Fatal\<close>), or it returns.
\<close>

datatype lua_error = ArgError nat string | Fatal string

datatype luv_return = Values "lua_value list" | Failure int string string

text \<open>
  What an observer outside the host program sees: an invocation of a host callable with its
  arguments, a condition reported by the protected call, a line on \<open>stderr\<close>.
\<close>

datatype event = Invoke lua_value "lua_value list" | Report string | Stderr string

section \<open>Native handles, the bridge data and the state\<close>

datatype uv_handle_type = UV_UNKNOWN_HANDLE | UV_POLL | UV_TIMER

datatype luv_callback_id = LUV_CLOSED | LUV_POLL

record luv_handle_t =
  ref :: int
  callbacks :: "luv_callback_id \<Rightarrow> lua_value option"

record uv_handle_t =
  handle_type :: uv_handle_type
  handle_data :: "luv_handle_t option"
  poll_active :: bool
  poll_events :: int
  handle_closing :: bool

text \<open>
  The state reachable from a \<open>lua_State*\<close>: the run-mode register \<open>ctx->mode\<close>, the
  loop's queue of registered handles, the native handle structures by identity, the
  metatable name of each userdata, the registry (reference to value), and the two
  allocation counters.
\<close>

record lua_State =
  ctx_mode :: int
  handle_queue :: "nat list"
  handles :: "nat \<rightharpoonup> uv_handle_t"
  metatable :: "nat \<rightharpoonup> string"
  registry :: "int \<rightharpoonup> lua_value"
  next_handle :: nat
  next_ref :: int

type_synonym world = "lua_State \<times> event list"

text \<open>
  The host program: what the callable with a given identity does to the state when it is
  called with some arguments, and the error it raises, if any.
\<close>

type_synonym host = "nat \<Rightarrow> lua_value list \<Rightarrow> lua_State \<Rightarrow> string option \<times> lua_State"

text \<open>
  The external collaborators, taken as parameters: the version of the native engine the
  binding is built against, the engine's primitives whose outcome depends on the operating
  system, and the host runtime's coercions between numbers and strings.
\<close>

record externals =
  uv_version_hex :: nat
  uv_run :: "world \<Rightarrow> int \<Rightarrow> int \<times> world"
  uv_poll_init_status :: "lua_State \<Rightarrow> int \<Rightarrow> int"
  uv_poll_init_socket_status :: "lua_State \<Rightarrow> int \<Rightarrow> int"
  uv_poll_start_status :: "lua_State \<Rightarrow> nat \<Rightarrow> int \<Rightarrow> int"
  uv_backend_fd :: "lua_State \<Rightarrow> int"
  uv_backend_timeout :: "lua_State \<Rightarrow> int"
  uv_err_name :: "int \<Rightarrow> string"
  uv_strerror :: "int \<Rightarrow> string"
  lua_number_tostring :: "int \<Rightarrow> string"
  lua_string_tointeger :: "string \<Rightarrow> int option"

section \<open>The auxiliary library's argument checks\<close>

text \<open>
  The checks of the host runtime's auxiliary library, as its reference manual describes
  them. An argument index starts at 1; an index past the last argument is \<open>none\<close>. A
  number is accepted where a string is expected and converted, and a string that denotes
  a number is accepted where an integer is expected. \<open>luaL_checkoption\<close> searches the
  string in the option list and returns the index where it is found; an argument that is
  none or nil stands for the default, when there is one. The stack is not part of the
  state: a value that is popped is simply not returned.
\<close>

definition lua_arg :: "lua_value list \<Rightarrow> nat \<Rightarrow> lua_value option" where
  "lua_arg args n = (if 1 \<le> n \<and> n \<le> length args then Some (args ! (n - 1)) else None)"

definition lua_isnoneornil :: "lua_value list \<Rightarrow> nat \<Rightarrow> bool" where
  "lua_isnoneornil args n = (case lua_arg args n of None \<Rightarrow> True | Some LNil \<Rightarrow> True | Some _ \<Rightarrow> False)"

definition luaL_checkstring :: "externals \<Rightarrow> lua_value list \<Rightarrow> nat \<Rightarrow> lua_error + string" where
  "luaL_checkstring ext args n =
     (case lua_arg args n of
        Some (LString s) \<Rightarrow> Inr s
      | Some (LInteger k) \<Rightarrow> Inr (lua_number_tostring ext k)
      | _ \<Rightarrow> Inl (ArgError n ''string expected''))"

definition luaL_optstring :: "externals \<Rightarrow> lua_value list \<Rightarrow> nat \<Rightarrow> string \<Rightarrow> lua_error + string" where
  "luaL_optstring ext args n def =
     (if lua_isnoneornil args n then Inr def else luaL_checkstring ext args n)"

fun option_index :: "string list \<Rightarrow> string \<Rightarrow> nat \<Rightarrow> nat option" where
  "option_index [] name i = None"
| "option_index (x # lst) name i = (if x = name then Some i else option_index lst name (Suc i))"

definition luaL_checkoption ::
  "externals \<Rightarrow> lua_value list \<Rightarrow> nat \<Rightarrow> string option \<Rightarrow> string list \<Rightarrow> lua_error + nat" where
  "luaL_checkoption ext args n def lst =
     (case (case def of Some d \<Rightarrow> luaL_optstring ext args n d | None \<Rightarrow> luaL_checkstring ext args n) of
        Inl e \<Rightarrow> Inl e
      | Inr name \<Rightarrow>
          (case option_index lst name 0 of
             Some i \<Rightarrow> Inr i
           | None \<Rightarrow> Inl (ArgError n (''invalid option '' @ name))))"

definition luaL_checkinteger :: "externals \<Rightarrow> lua_value list \<Rightarrow> nat \<Rightarrow> lua_error + int" where
  "luaL_checkinteger ext args n =
     (case lua_arg args n of
        Some (LInteger k) \<Rightarrow> Inr k
      | Some (LString s) \<Rightarrow>
          (case lua_string_tointeger ext s of
             Some k \<Rightarrow> Inr k
           | None \<Rightarrow> Inl (ArgError n ''number expected''))
      | _ \<Rightarrow> Inl (ArgError n ''number expected''))"

definition luaL_checkfunction :: "lua_value list \<Rightarrow> nat \<Rightarrow> lua_error + lua_value" where
  "luaL_checkfunction args n =
     (case lua_arg args n of
        Some (LFunction f) \<Rightarrow> Inr (LFunction f)
      | _ \<Rightarrow> Inl (ArgError n ''function expected''))"

text \<open>The conversion of a host integer to a C \<open>int\<close> of 32 bits (\<open>int fd = luaL_checkinteger(L, 1)\<close>).\<close>

definition c_int :: "int \<Rightarrow> int" where
  "c_int k = sint (word_of_int k :: 32 word)"

section \<open>Engine status codes as results\<close>

text \<open>
  Modelled from the spec: \<open>luv_error\<close> is defined outside the given sources. Section 7: a
  negative code returned by a native primitive is translated to a named-error value (code
  and human-readable string) and returned to the caller as an explicit failure result.
\<close>

definition luv_error :: "externals \<Rightarrow> int \<Rightarrow> luv_return" where
  "luv_error ext status = Failure status (uv_err_name ext status) (uv_strerror ext status)"

text \<open>
  Modelled from the spec: \<open>luv_result\<close> is defined outside the given sources. Sections 6
  and 7: a negative status is the failure result of \<open>luv_error\<close>; any other status is
  returned to the caller as the result value.
\<close>

definition luv_result :: "externals \<Rightarrow> int \<Rightarrow> luv_return" where
  "luv_result ext status = (if status < 0 then luv_error ext status else Values [LInteger status])"

section \<open>The loop controller (loop.c)\<close>

definition luv_runmodes :: "string list" where
  "luv_runmodes = [''default'', ''once'', ''nowait'']"

definition luv_run :: "externals \<Rightarrow> lua_value list \<Rightarrow> world \<Rightarrow> (lua_error + luv_return) \<times> world" where
  "luv_run ext args w =
     (case luaL_checkoption ext args 1 (Some ''default'') luv_runmodes of
        Inl e \<Rightarrow> (Inl e, w)
      | Inr i \<Rightarrow>
          (let mode = int i;
               entered = ((fst w)\<lparr>ctx_mode := mode\<rparr>, snd w);
               (ret, w') = uv_run ext entered mode;
               left = ((fst w')\<lparr>ctx_mode := - 1\<rparr>, snd w')
           in if ret < 0 then (Inr (luv_error ext ret), left)
              else (Inr (Values [LBoolean (ret \<noteq> 0)]), left)))"

text \<open>
  \<open>luv_runmodes[ctx->mode]\<close>: index 3 is the array's terminating \<open>NULL\<close>, for which
  \<open>lua_pushstring\<close> pushes nil; any other index outside the array is an out-of-bounds read.
\<close>

definition luv_loop_mode :: "lua_State \<Rightarrow> lua_error + luv_return" where
  "luv_loop_mode L =
     (if ctx_mode L = - 1 then Inr (Values [LNil])
      else if 0 \<le> ctx_mode L \<and> ctx_mode L < int (length luv_runmodes)
        then Inr (Values [LString (luv_runmodes ! nat (ctx_mode L))])
      else if ctx_mode L = int (length luv_runmodes) then Inr (Values [LNil])
      else Inl (Fatal ''luv_runmodes read out of bounds''))"

definition luv_backend_fd :: "externals \<Rightarrow> lua_State \<Rightarrow> luv_return" where
  "luv_backend_fd ext L =
     (let ret = uv_backend_fd ext L
      in if ret = - 1 then Values [LNil] else Values [LInteger ret])"

definition luv_backend_timeout :: "externals \<Rightarrow> lua_State \<Rightarrow> luv_return" where
  "luv_backend_timeout ext L = (let ret = uv_backend_timeout ext L in Values [LInteger ret])"

section \<open>The protected call and the callback slots\<close>

text \<open>
  Modelled from the spec: the protected call \<open>ctx->pcall\<close> is a function pointer whose
  target is outside the given sources. Section 4.2: the host callback runs to completion
  or failure; a failure raised inside it is caught at this boundary and converted into a
  reported condition, and never propagates to the caller. The status is 0 on success.
\<close>

definition luv_cfpcall :: "host \<Rightarrow> lua_value \<Rightarrow> lua_value list \<Rightarrow> world \<Rightarrow> int \<times> world" where
  "luv_cfpcall host fn args w =
     (case fn of
        LFunction f \<Rightarrow>
          (case host f args (fst w) of
             (None, L') \<Rightarrow> (0, (L', snd w @ [Invoke fn args]))
           | (Some msg, L') \<Rightarrow> (- 2, (L', snd w @ [Invoke fn args, Report msg])))
      | _ \<Rightarrow> (- 2, (fst w, snd w @ [Report ''attempt to call a value that is not a function''])))"

text \<open>
  Modelled from the spec: \<open>luv_call_callback\<close> is defined outside the given sources.
  Section 4.2: \<open>invoke\<close> looks up the callback slot for the event kind and calls it with
  the payload through the protected call; with no callback registered it is a no-op.
\<close>

definition luv_call_callback :: "host \<Rightarrow> luv_handle_t \<Rightarrow> luv_callback_id \<Rightarrow> lua_value list \<Rightarrow> world \<Rightarrow> world" where
  "luv_call_callback host data cid args w =
     (case callbacks data cid of
        None \<Rightarrow> w
      | Some fn \<Rightarrow> snd (luv_cfpcall host fn args w))"

text \<open>
  Modelled from the spec: \<open>luv_check_callback\<close> is defined outside the given sources.
  Section 4.4: \<open>start\<close> installs the callback in the handle's slot for the event kind,
  replacing the one before. Section 7: an argument that is not callable is a usage error,
  reported before anything is changed.
\<close>

definition luv_check_callback ::
  "lua_value list \<Rightarrow> nat \<Rightarrow> luv_callback_id \<Rightarrow> nat \<Rightarrow> lua_State \<Rightarrow> lua_error + lua_State" where
  "luv_check_callback args handle cid index L =
     (case luaL_checkfunction args index of
        Inl e \<Rightarrow> Inl e
      | Inr fn \<Rightarrow>
          (case handles L handle of
             None \<Rightarrow> Inl (Fatal ''handle read after free'')
           | Some h \<Rightarrow>
               (case handle_data h of
                  None \<Rightarrow> Inl (Fatal ''null handle data'')
                | Some data \<Rightarrow>
                    Inr (L\<lparr>handles := (handles L)(handle \<mapsto>
                           h\<lparr>handle_data := Some (data\<lparr>callbacks := (callbacks data)(cid \<mapsto> fn)\<rparr>)\<rparr>)\<rparr>))))"

text \<open>
  Modelled from the spec: \<open>luv_find_handle\<close> is defined outside the given sources. Section
  4.1: \<open>resolve\<close> recovers the managed wrapper of a handle from its bridge data, here
  through the registry reference that the data holds.
\<close>

definition luv_find_handle :: "lua_State \<Rightarrow> luv_handle_t \<Rightarrow> lua_value" where
  "luv_find_handle L data = (case registry L (ref data) of Some v \<Rightarrow> v | None \<Rightarrow> LNil)"

section \<open>The engine's handle primitives\<close>

text \<open>The event bits of the engine's header \<open>uv.h\<close>.\<close>

definition UV_READABLE :: int where "UV_READABLE = 1"
definition UV_WRITABLE :: int where "UV_WRITABLE = 2"
definition UV_DISCONNECT :: int where "UV_DISCONNECT = 4"
definition UV_PRIORITIZED :: int where "UV_PRIORITIZED = 8"

text \<open>
  Modelled from the spec: the macro \<open>LUV_UV_VERSION_GEQ\<close> is defined in a header outside
  the given sources. Sections 4.4 and 9: the disconnect and prioritized event kinds are
  gated by the version of the engine the binding is built against. The version is packed
  as major, minor and patch bytes.
\<close>

definition LUV_UV_VERSION_GEQ :: "externals \<Rightarrow> nat \<Rightarrow> nat \<Rightarrow> nat \<Rightarrow> bool" where
  "LUV_UV_VERSION_GEQ ext major minor patch =
     (major * 65536 + minor * 256 + patch \<le> uv_version_hex ext)"

text \<open>
  Modelled from the spec: the engine's bookkeeping of an initialised handle is external.
  Sections 3 and 6: a handle has a type tag, a liveness flag and an opaque data slot, and
  an initialised handle is among the loop's registered handles.
\<close>

definition uv_handle_init :: "nat \<Rightarrow> uv_handle_type \<Rightarrow> lua_State \<Rightarrow> lua_State" where
  "uv_handle_init handle t L =
     L\<lparr>handle_queue := handle_queue L @ [handle],
       handles := (handles L)(handle \<mapsto>
         \<lparr>handle_type = t, handle_data = None, poll_active = False, poll_events = 0,
          handle_closing = False\<rparr>)\<rparr>"

text \<open>
  Modelled from the spec: the engine's init primitive for a raw descriptor is external.
  Section 6: it returns a signed status code, negative for a named error. Section 4.4: it
  fails when the native watch cannot be initialised, and then nothing is registered.
\<close>

definition uv_poll_init :: "externals \<Rightarrow> nat \<Rightarrow> int \<Rightarrow> lua_State \<Rightarrow> int \<times> lua_State" where
  "uv_poll_init ext handle fd L =
     (let status = uv_poll_init_status ext L fd
      in if status < 0 then (status, L) else (status, uv_handle_init handle UV_POLL L))"

text \<open>
  Modelled from the spec: the engine's init primitive for a socket descriptor is external.
  Sections 4.4 and 6: as the raw one, with the platform's validation of sockets.
\<close>

definition uv_poll_init_socket :: "externals \<Rightarrow> nat \<Rightarrow> int \<Rightarrow> lua_State \<Rightarrow> int \<times> lua_State" where
  "uv_poll_init_socket ext handle fd L =
     (let status = uv_poll_init_socket_status ext L fd
      in if status < 0 then (status, L) else (status, uv_handle_init handle UV_POLL L))"

text \<open>
  Modelled from the spec: the engine's record of a handle's monitoring is external.
  Section 3: a handle is active or not; section 4.4: a started handle has one event mask.
\<close>

definition set_poll :: "nat \<Rightarrow> bool \<Rightarrow> int \<Rightarrow> lua_State \<Rightarrow> lua_State" where
  "set_poll handle a events L =
     (case handles L handle of
        None \<Rightarrow> L
      | Some h \<Rightarrow> L\<lparr>handles := (handles L)(handle \<mapsto> h\<lparr>poll_active := a, poll_events := events\<rparr>)\<rparr>)"

text \<open>
  Modelled from the spec: the engine's start primitive is external. Section 6: it returns
  a signed status code, negative for a named error. Section 4.4: it begins monitoring with
  the given mask, and on a started handle replaces the mask.
\<close>

definition uv_poll_start :: "externals \<Rightarrow> nat \<Rightarrow> int \<Rightarrow> lua_State \<Rightarrow> int \<times> lua_State" where
  "uv_poll_start ext handle events L =
     (let status = uv_poll_start_status ext L handle events
      in if status < 0 then (status, L) else (status, set_poll handle (events \<noteq> 0) events L))"

text \<open>
  Modelled from the spec: the engine's stop primitive is external. Section 4.4: it halts
  monitoring and is idempotent if the handle is already stopped; section 8: a second stop
  succeeds with no error.
\<close>

definition uv_poll_stop :: "nat \<Rightarrow> lua_State \<Rightarrow> int \<times> lua_State" where
  "uv_poll_stop handle L = (0, set_poll handle False 0 L)"

text \<open>
  Modelled from the spec: the engine's close primitive is external. Section 3: a handle is
  active, closing or closed, and the native identity is destroyed, and the bridge's lookup
  removed, only after the close completes. Section 4.3: a walk's callback may close
  handles. So a close requested from a callback halts monitoring and marks the handle as
  closing; the handle stays registered and its bridge data stays in place.
\<close>

definition uv_close :: "nat \<Rightarrow> lua_State \<Rightarrow> lua_State" where
  "uv_close handle L =
     (case handles L handle of
        None \<Rightarrow> L
      | Some h \<Rightarrow>
          L\<lparr>handles := (handles L)(handle \<mapsto>
               h\<lparr>poll_active := False, poll_events := 0, handle_closing := True\<rparr>)\<rparr>)"

text \<open>
  Modelled from the spec: the engine's walk primitive is external. Sections 4.3 and 6: it
  invokes the trampoline once per handle registered when it is called, over a snapshot of
  the handle queue. A trampoline that aborts ends the walk.
\<close>

fun uv_walk_queue ::
  "(nat \<Rightarrow> world \<Rightarrow> lua_error option \<times> world) \<Rightarrow> nat list \<Rightarrow> world \<Rightarrow> lua_error option \<times> world" where
  "uv_walk_queue walk_cb [] w = (None, w)"
| "uv_walk_queue walk_cb (handle # q) w =
     (case walk_cb handle w of
        (Some e, w') \<Rightarrow> (Some e, w')
      | (None, w') \<Rightarrow> uv_walk_queue walk_cb q w')"

text \<open>
  Modelled from the spec: the snapshot that the engine's walk primitive iterates over is
  the loop's handle queue at the time of the call (section 4.3).
\<close>

definition uv_walk :: "(nat \<Rightarrow> world \<Rightarrow> lua_error option \<times> world) \<Rightarrow> world \<Rightarrow> lua_error option \<times> world" where
  "uv_walk walk_cb w = uv_walk_queue walk_cb (handle_queue (fst w)) w"

section \<open>Walking the handles (loop.c)\<close>

text \<open>
  The trampoline reads \<open>handle->data\<close>, asserts \<open>data && data->ref < 0x1000000\<close>, and calls
  the walk's callback (argument 1 of \<open>luv_walk\<close>) with the handle's wrapper through
  \<open>ctx->pcall\<close>, whose status it discards.
\<close>

definition luv_walk_cb :: "host \<Rightarrow> lua_value \<Rightarrow> nat \<Rightarrow> world \<Rightarrow> lua_error option \<times> world" where
  "luv_walk_cb host fn handle w =
     (case handles (fst w) handle of
        None \<Rightarrow> (Some (Fatal ''handle read after free''), w)
      | Some h \<Rightarrow>
          (case handle_data h of
             None \<Rightarrow> (Some (Fatal ''assertion failed: data && data->ref < 0x1000000''), w)
           | Some data \<Rightarrow>
               if ref data < 0x1000000
               then (None, snd (luv_cfpcall host fn [luv_find_handle (fst w) data] w))
               else (Some (Fatal ''assertion failed: data && data->ref < 0x1000000''), w)))"

definition luv_walk :: "host \<Rightarrow> lua_value list \<Rightarrow> world \<Rightarrow> (lua_error + luv_return) \<times> world" where
  "luv_walk host args w =
     (case luaL_checkfunction args 1 of
        Inl e \<Rightarrow> (Inl e, w)
      | Inr fn \<Rightarrow>
          (case uv_walk (luv_walk_cb host fn) w of
             (Some e, w') \<Rightarrow> (Inl e, w')
           | (None, w') \<Rightarrow> (Inr (Values []), w')))"

section \<open>The poll handle (poll.c)\<close>

text \<open>
  Modelled from the spec: \<open>luv_checkudata\<close> is defined outside the given sources. Section
  7: operating on a value that is not a handle of the expected type is a usage error,
  reported at the call boundary.
\<close>

definition luv_checkudata :: "lua_State \<Rightarrow> lua_value list \<Rightarrow> nat \<Rightarrow> string \<Rightarrow> lua_error + nat" where
  "luv_checkudata L args index tname =
     (case lua_arg args index of
        Some (LUserdata handle) \<Rightarrow>
          if metatable L handle = Some tname then Inr handle
          else Inl (ArgError index (tname @ '' expected''))
      | _ \<Rightarrow> Inl (ArgError index (tname @ '' expected'')))"

text \<open>
  Modelled from the spec: \<open>luv_newuserdata\<close> is defined outside the given sources. Section
  3: the native handle and the host-visible object that points at it are created together,
  with a fresh identity.
\<close>

definition luv_newuserdata :: "lua_State \<Rightarrow> nat \<times> lua_State" where
  "luv_newuserdata L = (next_handle L, L\<lparr>next_handle := Suc (next_handle L)\<rparr>)"

text \<open>
  Modelled from the spec: the metatable a wrapper gets is chosen outside the given
  sources. Section 3: a handle has a type tag, and the wrapper is the object of that type.
\<close>

definition metatable_name :: "uv_handle_type \<Rightarrow> string" where
  "metatable_name t =
     (case t of UV_POLL \<Rightarrow> ''uv_poll'' | UV_TIMER \<Rightarrow> ''uv_timer'' | UV_UNKNOWN_HANDLE \<Rightarrow> ''uv_handle'')"

text \<open>
  Modelled from the spec: \<open>luv_setup_handle\<close> is defined outside the given sources. Section
  4.1: \<open>register\<close> establishes the mapping between the identity and the wrapper: the
  wrapper gets the metatable of its handle's type, the registry keeps a reference to the
  wrapper, and the bridge data with empty callback slots is returned for the handle's
  data slot.
\<close>

definition luv_setup_handle :: "nat \<Rightarrow> lua_State \<Rightarrow> luv_handle_t \<times> lua_State" where
  "luv_setup_handle handle L =
     (let r = next_ref L;
          t = (case handles L handle of Some h \<Rightarrow> handle_type h | None \<Rightarrow> UV_UNKNOWN_HANDLE)
      in (\<lparr>ref = r, callbacks = (\<lambda>cid. None)\<rparr>,
          L\<lparr>metatable := (metatable L)(handle \<mapsto> metatable_name t),
            registry := (registry L)(r \<mapsto> LUserdata handle),
            next_ref := r + 1\<rparr>))"

text \<open>The assignment \<open>handle->data = data\<close>.\<close>

definition set_handle_data :: "nat \<Rightarrow> luv_handle_t \<Rightarrow> lua_State \<Rightarrow> lua_State" where
  "set_handle_data handle data L =
     (case handles L handle of
        None \<Rightarrow> L
      | Some h \<Rightarrow> L\<lparr>handles := (handles L)(handle \<mapsto> h\<lparr>handle_data := Some data\<rparr>)\<rparr>)"

definition luv_check_poll :: "lua_State \<Rightarrow> lua_value list \<Rightarrow> nat \<Rightarrow> lua_error + nat" where
  "luv_check_poll L args index =
     (case luv_checkudata L args index ''uv_poll'' of
        Inl e \<Rightarrow> Inl e
      | Inr handle \<Rightarrow>
          (case handles L handle of
             None \<Rightarrow> Inl (Fatal ''handle read after free'')
           | Some h \<Rightarrow>
               if handle_type h = UV_POLL \<and> handle_data h \<noteq> None then Inr handle
               else Inl (ArgError index ''Expected uv_poll_t'')))"

definition luv_new_poll :: "externals \<Rightarrow> lua_value list \<Rightarrow> lua_State \<Rightarrow> (lua_error + luv_return) \<times> lua_State" where
  "luv_new_poll ext args L =
     (case luaL_checkinteger ext args 1 of
        Inl e \<Rightarrow> (Inl e, L)
      | Inr k \<Rightarrow>
          (let fd = c_int k;
               (handle, L1) = luv_newuserdata L;
               (ret, L2) = uv_poll_init ext handle fd L1
           in if ret < 0 then (Inr (luv_error ext ret), L2)
              else (let (data, L3) = luv_setup_handle handle L2
                    in (Inr (Values [LUserdata handle]), set_handle_data handle data L3))))"

definition luv_new_socket_poll :: "externals \<Rightarrow> lua_value list \<Rightarrow> lua_State \<Rightarrow> (lua_error + luv_return) \<times> lua_State" where
  "luv_new_socket_poll ext args L =
     (case luaL_checkinteger ext args 1 of
        Inl e \<Rightarrow> (Inl e, L)
      | Inr k \<Rightarrow>
          (let fd = c_int k;
               (handle, L1) = luv_newuserdata L;
               (ret, L2) = uv_poll_init_socket ext handle fd L1
           in if ret < 0 then (Inr (luv_error ext ret), L2)
              else (let (data, L3) = luv_setup_handle handle L2
                    in (Inr (Values [LUserdata handle]), set_handle_data handle data L3))))"

definition luv_pollevents :: "externals \<Rightarrow> string list" where
  "luv_pollevents ext =
     [''r'', ''w'', ''rw'']
     @ (if LUV_UV_VERSION_GEQ ext 1 9 0 then [''d'', ''rd'', ''wd'', ''rwd''] else [])
     @ (if LUV_UV_VERSION_GEQ ext 1 14 0
        then [''p'', ''rp'', ''wp'', ''rwp'', ''dp'', ''rdp'', ''wdp'', ''rwdp''] else [])"

text \<open>The \<open>switch (events)\<close> of \<open>luv_poll_cb\<close>.\<close>

definition poll_evtstr :: "externals \<Rightarrow> int \<Rightarrow> string" where
  "poll_evtstr ext events =
     (if events = UV_READABLE then ''r''
      else if events = UV_WRITABLE then ''w''
      else if events = UV_READABLE OR UV_WRITABLE then ''rw''
      else if LUV_UV_VERSION_GEQ ext 1 9 0 \<and> events = UV_DISCONNECT then ''d''
      else if LUV_UV_VERSION_GEQ ext 1 9 0 \<and> events = UV_READABLE OR UV_DISCONNECT then ''rd''
      else if LUV_UV_VERSION_GEQ ext 1 9 0 \<and> events = UV_WRITABLE OR UV_DISCONNECT then ''wd''
      else if LUV_UV_VERSION_GEQ ext 1 9 0 \<and> events = UV_READABLE OR UV_WRITABLE OR UV_DISCONNECT then ''rwd''
      else if LUV_UV_VERSION_GEQ ext 1 14 0 \<and> events = UV_PRIORITIZED then ''p''
      else if LUV_UV_VERSION_GEQ ext 1 14 0 \<and> events = UV_READABLE OR UV_PRIORITIZED then ''rp''
      else if LUV_UV_VERSION_GEQ ext 1 14 0 \<and> events = UV_WRITABLE OR UV_PRIORITIZED then ''wp''
      else if LUV_UV_VERSION_GEQ ext 1 14 0 \<and> events = UV_READABLE OR UV_WRITABLE OR UV_PRIORITIZED then ''rwp''
      else if LUV_UV_VERSION_GEQ ext 1 14 0 \<and> events = UV_DISCONNECT OR UV_PRIORITIZED then ''dp''
      else if LUV_UV_VERSION_GEQ ext 1 14 0 \<and> events = UV_READABLE OR UV_DISCONNECT OR UV_PRIORITIZED then ''rdp''
      else if LUV_UV_VERSION_GEQ ext 1 14 0 \<and> events = UV_WRITABLE OR UV_DISCONNECT OR UV_PRIORITIZED then ''wdp''
      else if LUV_UV_VERSION_GEQ ext 1 14 0
            \<and> events = UV_READABLE OR UV_WRITABLE OR UV_DISCONNECT OR UV_PRIORITIZED then ''rwdp''
      else [])"

definition luv_poll_cb :: "externals \<Rightarrow> host \<Rightarrow> nat \<Rightarrow> int \<Rightarrow> int \<Rightarrow> world \<Rightarrow> lua_error option \<times> world" where
  "luv_poll_cb ext host handle status events w =
     (case handles (fst w) handle of
        None \<Rightarrow> (Some (Fatal ''handle read after free''), w)
      | Some h \<Rightarrow>
          (case handle_data h of
             None \<Rightarrow> (Some (Fatal ''null handle data''), w)
           | Some data \<Rightarrow>
               (let (err, w1) =
                      (if status < 0
                       then (LString (uv_err_name ext status),
                             (fst w, snd w @ [Stderr (uv_err_name ext status @ '': '' @ uv_strerror ext status @ [CHR 0x0A])]))
                       else (LNil, w));
                    evtstr = poll_evtstr ext events
                in (None, luv_call_callback host data LUV_POLL [err, LString evtstr] w1))))"

text \<open>The \<open>switch\<close> of \<open>luv_poll_start\<close> on the index of the option.\<close>

definition poll_start_events :: "externals \<Rightarrow> nat \<Rightarrow> int" where
  "poll_start_events ext i =
     (if i = 0 then UV_READABLE
      else if i = 1 then UV_WRITABLE
      else if i = 2 then UV_READABLE OR UV_WRITABLE
      else if LUV_UV_VERSION_GEQ ext 1 9 0 \<and> i = 3 then UV_DISCONNECT
      else if LUV_UV_VERSION_GEQ ext 1 9 0 \<and> i = 4 then UV_READABLE OR UV_DISCONNECT
      else if LUV_UV_VERSION_GEQ ext 1 9 0 \<and> i = 5 then UV_WRITABLE OR UV_DISCONNECT
      else if LUV_UV_VERSION_GEQ ext 1 9 0 \<and> i = 6 then UV_READABLE OR UV_WRITABLE OR UV_DISCONNECT
      else if LUV_UV_VERSION_GEQ ext 1 14 0 \<and> i = 7 then UV_PRIORITIZED
      else if LUV_UV_VERSION_GEQ ext 1 14 0 \<and> i = 8 then UV_READABLE OR UV_PRIORITIZED
      else if LUV_UV_VERSION_GEQ ext 1 14 0 \<and> i = 9 then UV_WRITABLE OR UV_PRIORITIZED
      else if LUV_UV_VERSION_GEQ ext 1 14 0 \<and> i = 10 then UV_READABLE OR UV_WRITABLE OR UV_PRIORITIZED
      else if LUV_UV_VERSION_GEQ ext 1 14 0 \<and> i = 11 then UV_DISCONNECT OR UV_PRIORITIZED
      else if LUV_UV_VERSION_GEQ ext 1 14 0 \<and> i = 12 then UV_READABLE OR UV_DISCONNECT OR UV_PRIORITIZED
      else if LUV_UV_VERSION_GEQ ext 1 14 0 \<and> i = 13 then UV_WRITABLE OR UV_DISCONNECT OR UV_PRIORITIZED
      else if LUV_UV_VERSION_GEQ ext 1 14 0 \<and> i = 14
        then UV_READABLE OR UV_WRITABLE OR UV_DISCONNECT OR UV_PRIORITIZED
      else 0)"

definition luv_poll_start :: "externals \<Rightarrow> lua_value list \<Rightarrow> lua_State \<Rightarrow> (lua_error + luv_return) \<times> lua_State" where
  "luv_poll_start ext args L =
     (case luv_check_poll L args 1 of
        Inl e \<Rightarrow> (Inl e, L)
      | Inr handle \<Rightarrow>
          (case luaL_checkoption ext args 2 (Some ''rw'') (luv_pollevents ext) of
             Inl e \<Rightarrow> (Inl e, L)
           | Inr i \<Rightarrow>
               (let events = poll_start_events ext i
                in case luv_check_callback args handle LUV_POLL 3 L of
                     Inl e \<Rightarrow> (Inl e, L)
                   | Inr L1 \<Rightarrow>
                       (let (ret, L2) = uv_poll_start ext handle events L1
                        in (Inr (luv_result ext ret), L2)))))"

definition luv_poll_stop :: "externals \<Rightarrow> lua_value list \<Rightarrow> lua_State \<Rightarrow> (lua_error + luv_return) \<times> lua_State" where
  "luv_poll_stop ext args L =
     (case luv_check_poll L args 1 of
        Inl e \<Rightarrow> (Inl e, L)
      | Inr handle \<Rightarrow>
          (let (ret, L1) = uv_poll_stop handle L
           in (Inr (luv_result ext ret), L1)))"

text \<open>
  Modelled from the spec: the engine's dispatch of a readiness event is external. Section
  5: once a handle is stopped no further callback is delivered for it; liveness is checked
  before dispatch, so the trampoline runs only for a handle that is started. Section 4.4:
  a delivery carries the native status and the event mask, and when the status is negative
  the delivery reports the error alone, with no event bit set.
\<close>

definition uv_poll_io :: "externals \<Rightarrow> host \<Rightarrow> nat \<Rightarrow> int \<Rightarrow> int \<Rightarrow> world \<Rightarrow> lua_error option \<times> world" where
  "uv_poll_io ext host handle status events w =
     (case handles (fst w) handle of
        None \<Rightarrow> (None, w)
      | Some h \<Rightarrow>
          if poll_active h
          then luv_poll_cb ext host handle status (if status < 0 then 0 else events) w
          else (None, w))"

section \<open>An example environment\<close>

text \<open>
  A concrete engine, host program and states on which the properties below are
  instantiated. The engine is of version 1.44.0; its drive primitive returns 0 in mode
  default, 1 in mode once and the error -4 in mode nowait; a negative descriptor cannot be
  watched; its poll timeout is 0 while no registered handle is active (the loop would not
  block) and -1, no timeout, while one is. The host callable 1 stops the handle it is given and raises, the host callable
  2 closes the handle it is given, and every other host callable does nothing. \<open>example_poll_state\<close> holds one started poll handle,
  \<open>example_walk_state\<close> a second one that is not started.
\<close>

text \<open>A loop has an active watch when one of its registered handles is active.\<close>

definition has_active_handle :: "lua_State \<Rightarrow> bool" where
  "has_active_handle L =
     (\<exists>handle\<in>set (handle_queue L).
        case handles L handle of Some h \<Rightarrow> poll_active h | None \<Rightarrow> False)"

definition example_state :: lua_State where
  "example_state =
     \<lparr>ctx_mode = - 1, handle_queue = [], handles = Map.empty, metatable = Map.empty,
      registry = Map.empty, next_handle = 0, next_ref = 1\<rparr>"

definition example_ext :: externals where
  "example_ext =
     \<lparr>uv_version_hex = 76800,
      uv_run = (\<lambda>w mode. (if mode = 2 then - 4 else if mode = 1 then 1 else 0, w)),
      uv_poll_init_status = (\<lambda>L fd. if fd < 0 then - 9 else 0),
      uv_poll_init_socket_status = (\<lambda>L fd. if fd < 0 then - 9 else 0),
      uv_poll_start_status = (\<lambda>L handle events. 0),
      uv_backend_fd = (\<lambda>L. if handle_queue L = [] then - 1 else 3),
      uv_backend_timeout = (\<lambda>L. if has_active_handle L then - 1 else 0),
      uv_err_name = (\<lambda>status. if status = - 9 then ''EBADF'' else ''EINTR''),
      uv_strerror = (\<lambda>status. if status = - 9 then ''bad file descriptor'' else ''interrupted system call''),
      lua_number_tostring = (\<lambda>k. ''0''),
      lua_string_tointeger = (\<lambda>s. None)\<rparr>"

definition example_host :: host where
  "example_host f args L =
     (if f = 1 then (Some ''callback failed'', snd (luv_poll_stop example_ext args L))
      else if f = 2 then (None, (case args of [LUserdata handle] \<Rightarrow> uv_close handle L | _ \<Rightarrow> L))
      else (None, L))"

definition example_poll_state :: lua_State where
  "example_poll_state =
     snd (luv_poll_start example_ext [LUserdata 0, LString ''rw'', LFunction 0]
       (snd (luv_new_poll example_ext [LInteger 5] example_state)))"

definition example_data :: luv_handle_t where
  "example_data = \<lparr>ref = 1, callbacks = (\<lambda>cid. None)(LUV_POLL \<mapsto> LFunction 0)\<rparr>"

definition example_handle :: uv_handle_t where
  "example_handle =
     \<lparr>handle_type = UV_POLL, handle_data = Some example_data, poll_active = True, poll_events = 3,
      handle_closing = False\<rparr>"

definition example_walk_state :: lua_State where
  "example_walk_state = snd (luv_new_poll example_ext [LInteger 6] example_poll_state)"

section \<open>The spec's vocabulary\<close>

text \<open>
  The spec speaks of combinations of the four event kinds readable, writable, disconnect
  and prioritized. A combination has a bitmask and a label; the disconnect kind is
  available from engine version 1.9.0 and the prioritized kind from 1.14.0.
\<close>

definition event_mask :: "bool \<Rightarrow> bool \<Rightarrow> bool \<Rightarrow> bool \<Rightarrow> int" where
  "event_mask r w d p =
     (if r then UV_READABLE else 0) OR (if w then UV_WRITABLE else 0)
     OR (if d then UV_DISCONNECT else 0) OR (if p then UV_PRIORITIZED else 0)"

definition event_label :: "bool \<Rightarrow> bool \<Rightarrow> bool \<Rightarrow> bool \<Rightarrow> string" where
  "event_label r w d p =
     (if r then ''r'' else []) @ (if w then ''w'' else [])
     @ (if d then ''d'' else []) @ (if p then ''p'' else [])"

definition event_supported :: "externals \<Rightarrow> bool \<Rightarrow> bool \<Rightarrow> bool" where
  "event_supported ext d p =
     ((d \<longrightarrow> LUV_UV_VERSION_GEQ ext 1 9 0) \<and> (p \<longrightarrow> LUV_UV_VERSION_GEQ ext 1 14 0))"

text \<open>
  A value is a poll handle when it is a userdata with the poll metatable whose native
  handle has the poll type tag and a bridge data slot that is set.
\<close>

definition is_poll_handle :: "lua_State \<Rightarrow> lua_value \<Rightarrow> bool" where
  "is_poll_handle L v =
     (case v of
        LUserdata handle \<Rightarrow>
          metatable L handle = Some ''uv_poll'' \<and>
          (case handles L handle of
             Some h \<Rightarrow> handle_type h = UV_POLL \<and> handle_data h \<noteq> None
           | None \<Rightarrow> False)
      | _ \<Rightarrow> False)"

text \<open>
  A userdata dangles when the native handle it points at is not allocated; reading the
  handle's type through it is not defined by the source.
\<close>

definition dangling :: "lua_State \<Rightarrow> lua_value \<Rightarrow> bool" where
  "dangling L v = (case v of LUserdata handle \<Rightarrow> handles L handle = None | _ \<Rightarrow> False)"

text \<open>
  The bridge association of a handle: it is registered with the loop, its wrapper is a
  poll handle, and its bridge data resolves to the wrapper.
\<close>

definition bridged :: "lua_State \<Rightarrow> nat \<Rightarrow> bool" where
  "bridged L handle =
     (handle \<in> set (handle_queue L) \<and> is_poll_handle L (LUserdata handle) \<and>
      (case handles L handle of
         Some h \<Rightarrow>
           (case handle_data h of
              Some data \<Rightarrow> luv_find_handle L data = LUserdata handle
            | None \<Rightarrow> False)
       | None \<Rightarrow> False))"

text \<open>
  The spec's \<open>resolve\<close>: the wrapper that the bridge gives for a native identity, defined
  when the handle's bridge data is set and holds a plausible registry reference.
\<close>

definition resolve :: "lua_State \<Rightarrow> nat \<Rightarrow> lua_value option" where
  "resolve L handle =
     (case handles L handle of
        None \<Rightarrow> None
      | Some h \<Rightarrow>
          (case handle_data h of
             None \<Rightarrow> None
           | Some data \<Rightarrow> if ref data < 0x1000000 then Some (luv_find_handle L data) else None))"

text \<open>The invocations of host callables among the observable events.\<close>

fun is_invoke :: "event \<Rightarrow> bool" where
  "is_invoke (Invoke fn args) = True"
| "is_invoke (Report msg) = False"
| "is_invoke (Stderr line) = False"

text \<open>
  The spec's walk: for every registered handle, in order, resolve its wrapper and invoke
  the callback once on the state the callbacks before it have left; a failure the callback
  raises is reported and the walk goes on. \<open>walk_safe\<close> says that the bridge is intact at
  every visit, \<open>walk_visits\<close> lists the visits (handle, wrapper passed, error raised),
  \<open>walk_state\<close> is the state the callbacks leave, \<open>visit_events\<close> what one visit shows.
\<close>

fun walk_safe :: "host \<Rightarrow> nat \<Rightarrow> nat list \<Rightarrow> lua_State \<Rightarrow> bool" where
  "walk_safe host f [] L = True"
| "walk_safe host f (handle # q) L =
     (case resolve L handle of
        None \<Rightarrow> False
      | Some wrapper \<Rightarrow> walk_safe host f q (snd (host f [wrapper] L)))"

fun walk_visits :: "host \<Rightarrow> nat \<Rightarrow> nat list \<Rightarrow> lua_State \<Rightarrow> (nat \<times> lua_value \<times> string option) list" where
  "walk_visits host f [] L = []"
| "walk_visits host f (handle # q) L =
     (case resolve L handle of
        None \<Rightarrow> []
      | Some wrapper \<Rightarrow>
          (handle, wrapper, fst (host f [wrapper] L))
          # walk_visits host f q (snd (host f [wrapper] L)))"

fun walk_state :: "host \<Rightarrow> nat \<Rightarrow> nat list \<Rightarrow> lua_State \<Rightarrow> lua_State" where
  "walk_state host f [] L = L"
| "walk_state host f (handle # q) L =
     (case resolve L handle of
        None \<Rightarrow> L
      | Some wrapper \<Rightarrow> walk_state host f q (snd (host f [wrapper] L)))"

definition visit_events :: "nat \<Rightarrow> nat \<times> lua_value \<times> string option \<Rightarrow> event list" where
  "visit_events f v =
     Invoke (LFunction f) [fst (snd v)]
     # (case snd (snd v) of None \<Rightarrow> [] | Some msg \<Rightarrow> [Report msg])"

section \<open>Properties of the loop controller\<close>

lemma run_option:
  "i < length luv_runmodes \<Longrightarrow>
   luaL_checkoption ext [LString (luv_runmodes ! i)] (Suc 0) (Some ''default'') luv_runmodes = Inr i"
  by (auto simp: luaL_checkoption_def luaL_optstring_def luaL_checkstring_def lua_isnoneornil_def
      lua_arg_def luv_runmodes_def less_Suc_eq numeral_3_eq_3)

text \<open>
  C4. For each of the modes default, once and nowait, \<open>luv_run\<close> enters the native drive
  primitive on a state whose mode register holds that mode, so that a mode query made
  there answers the mode string; whatever the primitive returns, success or error, the
  state \<open>luv_run\<close> leaves has the register reset to unset, and a mode query made after
  the call answers nil.
\<close>

theorem luv_run_mode_register:
  assumes "i < length luv_runmodes"
  shows "snd (luv_run ext [LString (luv_runmodes ! i)] (L, log)) =
           (let w = snd (uv_run ext (L\<lparr>ctx_mode := int i\<rparr>, log) (int i))
            in ((fst w)\<lparr>ctx_mode := - 1\<rparr>, snd w))
       \<and> luv_loop_mode (L\<lparr>ctx_mode := int i\<rparr>) = Inr (Values [LString (luv_runmodes ! i)])
       \<and> luv_loop_mode (fst (snd (luv_run ext [LString (luv_runmodes ! i)] (L, log)))) = Inr (Values [LNil])"
proof -
  obtain ret w where r: "uv_run ext (L\<lparr>ctx_mode := int i\<rparr>, log) (int i) = (ret, w)"
    by (cases "uv_run ext (L\<lparr>ctx_mode := int i\<rparr>, log) (int i)")
  have s: "snd (luv_run ext [LString (luv_runmodes ! i)] (L, log)) = ((fst w)\<lparr>ctx_mode := - 1\<rparr>, snd w)"
    using r by (simp add: luv_run_def run_option [OF assms] Let_def)
  have m: "luv_loop_mode (L\<lparr>ctx_mode := int i\<rparr>) = Inr (Values [LString (luv_runmodes ! i)])"
    using assms by (simp add: luv_loop_mode_def)
  show ?thesis using r s m by (simp add: luv_loop_mode_def)
qed

theorem luv_run_mode_register_witness:
  "snd (luv_run example_ext [LString ''nowait''] (example_state, [])) = (example_state, [])
   \<and> luv_loop_mode (example_state\<lparr>ctx_mode := 2\<rparr>) = Inr (Values [LString ''nowait''])
   \<and> luv_loop_mode (fst (snd (luv_run example_ext [LString ''nowait''] (example_state, [])))) = Inr (Values [LNil])"
  using luv_run_mode_register [of 2 example_ext example_state "[]"]
  by (simp add: luv_runmodes_def luv_loop_mode_def example_ext_def example_state_def)

text \<open>
  C5. For each of the three modes, when the native drive primitive returns a status that
  is not negative, \<open>luv_run\<close> returns one boolean, true exactly when the status is positive
  (further callbacks may be expected) and false when it is zero; when the status is
  negative, \<open>luv_run\<close> returns the named error of that status and no boolean.
\<close>

theorem luv_run_result:
  assumes "i < length luv_runmodes"
    and "uv_run ext (L\<lparr>ctx_mode := int i\<rparr>, log) (int i) = (ret, w)"
  shows "fst (luv_run ext [LString (luv_runmodes ! i)] (L, log)) =
           (if ret < 0 then Inr (Failure ret (uv_err_name ext ret) (uv_strerror ext ret))
            else Inr (Values [LBoolean (0 < ret)]))"
  using assms(2) by (auto simp: luv_run_def run_option [OF assms(1)] luv_error_def Let_def)

theorem luv_run_result_witness:
  "fst (luv_run example_ext [LString ''once''] (example_state, [])) = Inr (Values [LBoolean True])
   \<and> fst (luv_run example_ext [LString ''default''] (example_state, [])) = Inr (Values [LBoolean False])
   \<and> fst (luv_run example_ext [LString ''nowait''] (example_state, []))
       = Inr (Failure (- 4) ''EINTR'' ''interrupted system call'')"
  using luv_run_result [of 1 example_ext example_state "[]" 1 "(example_state\<lparr>ctx_mode := 1\<rparr>, [])"]
    luv_run_result [of 0 example_ext example_state "[]" 0 "(example_state\<lparr>ctx_mode := 0\<rparr>, [])"]
    luv_run_result [of 2 example_ext example_state "[]" "- 4" "(example_state\<lparr>ctx_mode := 2\<rparr>, [])"]
  by (simp add: luv_runmodes_def example_ext_def)

section \<open>Properties of the readiness callback\<close>

lemma version_geq_mono: "LUV_UV_VERSION_GEQ ext 1 14 0 \<Longrightarrow> LUV_UV_VERSION_GEQ ext 1 9 0"
  by (simp add: LUV_UV_VERSION_GEQ_def)

lemmas uv_event_bits = UV_READABLE_def UV_WRITABLE_def UV_DISCONNECT_def UV_PRIORITIZED_def

lemma poll_evtstr_label:
  assumes "r \<or> w \<or> d \<or> p"
  shows "poll_evtstr ext (event_mask r w d p) =
           (if event_supported ext d p then event_label r w d p else [])"
proof (cases "LUV_UV_VERSION_GEQ ext 1 14 0")
  case True
  then have "LUV_UV_VERSION_GEQ ext 1 9 0" by (rule version_geq_mono)
  with True assms show ?thesis
    by (cases r; cases w; cases d; cases p;
        simp add: poll_evtstr_def event_mask_def event_label_def event_supported_def uv_event_bits)
next
  case False
  with assms show ?thesis
    by (cases r; cases w; cases d; cases p; cases "LUV_UV_VERSION_GEQ ext 1 9 0";
        simp add: poll_evtstr_def event_mask_def event_label_def event_supported_def uv_event_bits)
qed

lemma event_label_inj:
  "(event_label r w d p = event_label r' w' d' p') = (r = r' \<and> w = w' \<and> d = d' \<and> p = p')"
  by (cases r; cases w; cases d; cases p; cases r'; cases w'; cases d'; cases p';
      simp add: event_label_def)

lemma luv_poll_cb_delivery:
  assumes "handles L handle = Some h" and "handle_data h = Some data"
    and "callbacks data LUV_POLL = Some (LFunction f)"
    and "host f [if status < 0 then LString (uv_err_name ext status) else LNil,
                 LString (poll_evtstr ext events)] L = (res, L')"
  shows "luv_poll_cb ext host handle status events (L, log) =
     (None, (L', log
        @ (if status < 0
           then [Stderr (uv_err_name ext status @ '': '' @ uv_strerror ext status @ [CHR 0x0A])] else [])
        @ [Invoke (LFunction f) [if status < 0 then LString (uv_err_name ext status) else LNil,
                                 LString (poll_evtstr ext events)]]
        @ (case res of None \<Rightarrow> [] | Some msg \<Rightarrow> [Report msg])))"
  using assms
  by (cases res) (auto simp: luv_poll_cb_def luv_call_callback_def luv_cfpcall_def Let_def)

lemma c_int_5: "c_int 5 = 5"
  by (simp add: c_int_def)

lemma example_poll_state_eq:
  "example_poll_state =
     \<lparr>ctx_mode = - 1, handle_queue = [0], handles = [0 \<mapsto> example_handle],
      metatable = [0 \<mapsto> ''uv_poll''], registry = [1 \<mapsto> LUserdata 0], next_handle = 1, next_ref = 2\<rparr>"
  by (simp add: example_poll_state_def luv_poll_start_def luv_new_poll_def luaL_checkinteger_def
      lua_arg_def c_int_5 luv_newuserdata_def uv_poll_init_def uv_handle_init_def example_ext_def
      example_state_def luv_setup_handle_def set_handle_data_def metatable_name_def luv_check_poll_def
      luv_checkudata_def luaL_checkoption_def luaL_optstring_def luaL_checkstring_def
      lua_isnoneornil_def luv_pollevents_def LUV_UV_VERSION_GEQ_def poll_start_events_def
      luv_check_callback_def luaL_checkfunction_def uv_poll_start_def set_poll_def luv_result_def
      Let_def uv_event_bits example_handle_def example_data_def)

lemma example_poll_handle: "handles example_poll_state 0 = Some example_handle"
  by (simp add: example_poll_state_eq)

text \<open>
  C2. When the readiness callback is delivered with a status that is not negative for a
  combination of the four event kinds that is not empty, the registered callback is
  invoked exactly once, with nil and the label of the combination, provided the engine
  version supports the kinds it holds (otherwise the label is empty). Every combination is
  supported on an engine of version 1.14.0 or later (15 labels); on an engine older than
  1.9.0 exactly the combinations of readable and writable are (3 labels). Distinct
  combinations have distinct labels.
\<close>

theorem luv_poll_cb_event_label:
  assumes "handles L handle = Some h" and "handle_data h = Some data"
    and "callbacks data LUV_POLL = Some (LFunction f)"
    and "0 \<le> status" and "r \<or> w \<or> d \<or> p"
    and "host f [LNil, LString (if event_supported ext d p then event_label r w d p else [])] L = (res, L')"
  shows "luv_poll_cb ext host handle status (event_mask r w d p) (L, log) =
           (None, (L', log
              @ [Invoke (LFunction f)
                   [LNil, LString (if event_supported ext d p then event_label r w d p else [])]]
              @ (case res of None \<Rightarrow> [] | Some msg \<Rightarrow> [Report msg])))
       \<and> (LUV_UV_VERSION_GEQ ext 1 14 0 \<longrightarrow> event_supported ext d p)
       \<and> (\<not> LUV_UV_VERSION_GEQ ext 1 9 0 \<longrightarrow> event_supported ext d p = (\<not> d \<and> \<not> p))
       \<and> ((event_label r w d p = event_label r' w' d' p') = (r = r' \<and> w = w' \<and> d = d' \<and> p = p'))"
proof -
  have lbl: "poll_evtstr ext (event_mask r w d p) =
      (if event_supported ext d p then event_label r w d p else [])"
    using assms(5) by (rule poll_evtstr_label)
  have "luv_poll_cb ext host handle status (event_mask r w d p) (L, log) =
           (None, (L', log
              @ [Invoke (LFunction f)
                   [LNil, LString (if event_supported ext d p then event_label r w d p else [])]]
              @ (case res of None \<Rightarrow> [] | Some msg \<Rightarrow> [Report msg])))"
    using luv_poll_cb_delivery [of L handle h data f host status ext "event_mask r w d p" res L' log]
      assms(1-4,6) by (simp add: lbl)
  moreover have "LUV_UV_VERSION_GEQ ext 1 14 0 \<longrightarrow> event_supported ext d p"
    using version_geq_mono [of ext] by (auto simp: event_supported_def)
  moreover have "\<not> LUV_UV_VERSION_GEQ ext 1 9 0 \<longrightarrow> event_supported ext d p = (\<not> d \<and> \<not> p)"
    using version_geq_mono [of ext] by (auto simp: event_supported_def)
  ultimately show ?thesis by (simp add: event_label_inj)
qed

theorem luv_poll_cb_event_label_witness:
  "luv_poll_cb example_ext example_host 0 0 (UV_READABLE OR UV_WRITABLE) (example_poll_state, []) =
     (None, (example_poll_state, [Invoke (LFunction 0) [LNil, LString ''rw'']]))
   \<and> luv_poll_cb example_ext example_host 0 7
         (UV_READABLE OR UV_WRITABLE OR UV_DISCONNECT OR UV_PRIORITIZED) (example_poll_state, []) =
     (None, (example_poll_state, [Invoke (LFunction 0) [LNil, LString ''rwdp'']]))"
proof -
  have d: "handle_data example_handle = Some example_data"
    by (simp add: example_handle_def)
  have c: "callbacks example_data LUV_POLL = Some (LFunction 0)"
    by (simp add: example_data_def)
  have s: "event_supported example_ext False False"
    by (simp add: event_supported_def)
  have t: "event_supported example_ext True True"
    by (simp add: event_supported_def LUV_UV_VERSION_GEQ_def example_ext_def)
  have h: "example_host 0 [LNil, LString (if event_supported example_ext False False
      then event_label True True False False else [])] example_poll_state = (None, example_poll_state)"
    by (simp add: example_host_def)
  have k: "example_host 0 [LNil, LString (if event_supported example_ext True True
      then event_label True True True True else [])] example_poll_state = (None, example_poll_state)"
    by (simp add: example_host_def)
  show ?thesis
    using luv_poll_cb_event_label [where L = example_poll_state and handle = 0 and h = example_handle
        and data = example_data and f = 0 and status = 0 and r = True and w = True and d = False
        and p = False and host = example_host and ext = example_ext and res = None
        and L' = example_poll_state and log = "[]"]
      luv_poll_cb_event_label [where L = example_poll_state and handle = 0 and h = example_handle
        and data = example_data and f = 0 and status = 7 and r = True and w = True and d = True
        and p = True and host = example_host and ext = example_ext and res = None
        and L' = example_poll_state and log = "[]"]
      example_poll_handle d c h k
    by (simp add: s t event_mask_def event_label_def uv_event_bits)
qed

text \<open>
  C3. For every delivery of the engine to a started handle whose native status is
  negative, a line naming the error is written to \<open>stderr\<close> and the registered callback
  is invoked once with the error's name as its first argument and the empty string as its
  second: the engine reports an error with no event bit set, and the trampoline's lookup
  of the mask 0 falls to the default, empty label. For every delivery whose status is not
  negative, nothing is written and the first argument is nil.
\<close>

theorem luv_poll_cb_status:
  assumes "handles L handle = Some h" and "poll_active h" and "handle_data h = Some data"
    and "callbacks data LUV_POLL = Some (LFunction f)"
    and "host f [if status < 0 then LString (uv_err_name ext status) else LNil,
                 LString (if status < 0 then [] else poll_evtstr ext events)] L = (res, L')"
  shows "uv_poll_io ext host handle status events (L, log) =
           (None, (L', log
              @ (if status < 0
                 then [Stderr (uv_err_name ext status @ '': '' @ uv_strerror ext status @ [CHR 0x0A]),
                       Invoke (LFunction f) [LString (uv_err_name ext status), LString []]]
                 else [Invoke (LFunction f) [LNil, LString (poll_evtstr ext events)]])
              @ (case res of None \<Rightarrow> [] | Some msg \<Rightarrow> [Report msg])))
       \<and> luv_poll_cb ext host handle status (if status < 0 then 0 else events) (L, log) =
           uv_poll_io ext host handle status events (L, log)"
proof -
  have e: "poll_evtstr ext 0 = []"
    by (simp add: poll_evtstr_def uv_event_bits)
  have io: "uv_poll_io ext host handle status events (L, log) =
      luv_poll_cb ext host handle status (if status < 0 then 0 else events) (L, log)"
    using assms(1,2) by (simp add: uv_poll_io_def)
  show ?thesis
  proof (cases "status < 0")
    case True
    then show ?thesis
      using luv_poll_cb_delivery [where host = host and L = L and f = f and res = res and L' = L'
          and ext = ext and status = status and events = 0 and handle = handle and h = h
          and data = data and log = log] assms
      by (simp add: io e)
  next
    case False
    then show ?thesis
      using luv_poll_cb_delivery [where host = host and L = L and f = f and res = res and L' = L'
          and ext = ext and status = status and events = events and handle = handle and h = h
          and data = data and log = log] assms
      by (simp add: io)
  qed
qed

theorem luv_poll_cb_status_witness:
  "uv_poll_io example_ext example_host 0 (- 9) 3 (example_poll_state, []) =
     (None, (example_poll_state,
        [Stderr (''EBADF: bad file descriptor'' @ [CHR 0x0A]),
         Invoke (LFunction 0) [LString ''EBADF'', LString []]]))
   \<and> luv_poll_cb example_ext example_host 0 (- 9) 0 (example_poll_state, []) =
     (None, (example_poll_state,
        [Stderr (''EBADF: bad file descriptor'' @ [CHR 0x0A]),
         Invoke (LFunction 0) [LString ''EBADF'', LString []]]))
   \<and> uv_poll_io example_ext example_host 0 0 1 (example_poll_state, []) =
     (None, (example_poll_state, [Invoke (LFunction 0) [LNil, LString ''r'']]))"
proof -
  have a: "poll_active example_handle"
    by (simp add: example_handle_def)
  have d: "handle_data example_handle = Some example_data"
    by (simp add: example_handle_def)
  have c: "callbacks example_data LUV_POLL = Some (LFunction 0)"
    by (simp add: example_data_def)
  have r: "poll_evtstr example_ext 1 = ''r''"
    by (simp add: poll_evtstr_def uv_event_bits)
  have n: "uv_err_name example_ext (- 9) = ''EBADF''"
    by (simp add: example_ext_def)
  have m: "uv_strerror example_ext (- 9) = ''bad file descriptor''"
    by (simp add: example_ext_def)
  have h: "example_host 0 [if (- 9 :: int) < 0 then LString (uv_err_name example_ext (- 9)) else LNil,
      LString (if (- 9 :: int) < 0 then [] else poll_evtstr example_ext 3)] example_poll_state
      = (None, example_poll_state)"
    by (simp add: example_host_def)
  have k: "example_host 0 [if (0 :: int) < 0 then LString (uv_err_name example_ext 0) else LNil,
      LString (if (0 :: int) < 0 then [] else poll_evtstr example_ext 1)] example_poll_state
      = (None, example_poll_state)"
    by (simp add: example_host_def)
  show ?thesis
    using luv_poll_cb_status [where L = example_poll_state and handle = 0 and h = example_handle
        and data = example_data and f = 0 and status = "- 9" and events = 3 and host = example_host
        and ext = example_ext and res = None and L' = example_poll_state and log = "[]"]
      luv_poll_cb_status [where L = example_poll_state and handle = 0 and h = example_handle
        and data = example_data and f = 0 and status = 0 and events = 1 and host = example_host
        and ext = example_ext and res = None and L' = example_poll_state and log = "[]"]
      example_poll_handle a d c h k
    by (simp add: r n m)
qed

section \<open>Usage errors\<close>

lemma luv_check_poll_valid:
  assumes "is_poll_handle L v"
  shows "\<exists>handle. v = LUserdata handle \<and> luv_check_poll L (v # rest) (Suc 0) = Inr handle"
  using assms
  by (cases v) (auto simp: is_poll_handle_def luv_check_poll_def luv_checkudata_def lua_arg_def
      split: option.splits)

lemma luv_check_poll_invalid:
  assumes "\<not> is_poll_handle L v" and "\<not> dangling L v"
  shows "\<exists>msg. luv_check_poll L (v # rest) (Suc 0) = Inl (ArgError 1 msg)"
  using assms
  by (cases v) (auto simp: is_poll_handle_def dangling_def luv_check_poll_def luv_checkudata_def
      lua_arg_def split: option.splits)

lemma luv_check_poll_Inr:
  assumes "luv_check_poll L (v # rest) (Suc 0) = Inr handle"
  shows "v = LUserdata handle \<and> is_poll_handle L v"
  using assms
  by (cases v) (auto simp: is_poll_handle_def luv_check_poll_def luv_checkudata_def lua_arg_def
      split: option.splits if_splits)

lemma option_index_None: "(option_index lst name i = None) = (name \<notin> set lst)"
  by (induction lst arbitrary: i) auto

lemma checkoption_invalid:
  assumes "s \<notin> set lst" and "lua_arg args n = Some (LString s)"
  shows "luaL_checkoption ext args n (Some def) lst = Inl (ArgError n (''invalid option '' @ s))"
proof -
  have "option_index lst s 0 = None"
    using assms(1) by (simp add: option_index_None)
  then show ?thesis
    using assms(2)
    by (simp add: luaL_checkoption_def luaL_optstring_def luaL_checkstring_def lua_isnoneornil_def)
qed

text \<open>
  C6. \<open>luv_run\<close> called with a mode string outside default, once and nowait, and
  \<open>luv_poll_start\<close> called on a poll handle with an event-mask string outside the labels
  the engine version supports, raise an argument error and leave the state as it was;
  \<open>luv_poll_start\<close> and \<open>luv_poll_stop\<close> called on a value that is not a poll handle
  (and is not a userdata whose native handle is gone) raise an argument error for
  argument 1 and leave the state as it was. This holds for every behaviour of the
  engine's primitives, so none of them has run.
\<close>

theorem usage_errors:
  "(s \<notin> set luv_runmodes \<longrightarrow>
      luv_run ext (LString s # rest) w = (Inl (ArgError 1 (''invalid option '' @ s)), w))
   \<and> (is_poll_handle L v \<and> s \<notin> set (luv_pollevents ext) \<longrightarrow>
      luv_poll_start ext (v # LString s # rest) L = (Inl (ArgError 2 (''invalid option '' @ s)), L))
   \<and> (\<not> is_poll_handle L v \<and> \<not> dangling L v \<longrightarrow>
      (\<exists>msg. luv_poll_start ext (v # rest) L = (Inl (ArgError 1 msg), L))
      \<and> (\<exists>msg. luv_poll_stop ext (v # rest) L = (Inl (ArgError 1 msg), L)))"
proof (intro conjI impI)
  assume "s \<notin> set luv_runmodes"
  then have "luaL_checkoption ext (LString s # rest) 1 (Some ''default'') luv_runmodes
      = Inl (ArgError 1 (''invalid option '' @ s))"
    by (rule checkoption_invalid) (simp add: lua_arg_def)
  then show "luv_run ext (LString s # rest) w = (Inl (ArgError 1 (''invalid option '' @ s)), w)"
    by (simp add: luv_run_def)
next
  assume a: "is_poll_handle L v \<and> s \<notin> set (luv_pollevents ext)"
  then obtain handle where "luv_check_poll L (v # LString s # rest) (Suc 0) = Inr handle"
    using luv_check_poll_valid by blast
  moreover have "luaL_checkoption ext (v # LString s # rest) 2 (Some ''rw'') (luv_pollevents ext)
      = Inl (ArgError 2 (''invalid option '' @ s))"
    using a by (intro checkoption_invalid) (simp_all add: lua_arg_def)
  ultimately show "luv_poll_start ext (v # LString s # rest) L
      = (Inl (ArgError 2 (''invalid option '' @ s)), L)"
    by (simp add: luv_poll_start_def)
next
  assume "\<not> is_poll_handle L v \<and> \<not> dangling L v"
  then obtain msg where "luv_check_poll L (v # rest) (Suc 0) = Inl (ArgError 1 msg)"
    using luv_check_poll_invalid by blast
  then show "\<exists>msg. luv_poll_start ext (v # rest) L = (Inl (ArgError 1 msg), L)"
    by (simp add: luv_poll_start_def)
next
  assume "\<not> is_poll_handle L v \<and> \<not> dangling L v"
  then obtain msg where "luv_check_poll L (v # rest) (Suc 0) = Inl (ArgError 1 msg)"
    using luv_check_poll_invalid by blast
  then show "\<exists>msg. luv_poll_stop ext (v # rest) L = (Inl (ArgError 1 msg), L)"
    by (simp add: luv_poll_stop_def)
qed

lemma example_is_poll_handle: "is_poll_handle example_poll_state (LUserdata 0)"
  by (simp add: is_poll_handle_def example_poll_state_eq example_handle_def)

theorem usage_errors_witness:
  "luv_run example_ext [LString ''forever''] (example_state, [])
     = (Inl (ArgError 1 ''invalid option forever''), (example_state, []))
   \<and> luv_poll_start example_ext [LUserdata 0, LString ''x'', LFunction 0] example_poll_state
     = (Inl (ArgError 2 ''invalid option x''), example_poll_state)
   \<and> (\<exists>msg. luv_poll_start example_ext [LInteger 3, LString ''r'', LFunction 0] example_poll_state
        = (Inl (ArgError 1 msg), example_poll_state))
   \<and> (\<exists>msg. luv_poll_stop example_ext [LInteger 3] example_poll_state
        = (Inl (ArgError 1 msg), example_poll_state))"
  using usage_errors [of "''forever''" example_ext "[]" "(example_state, [])" example_poll_state "LInteger 3"]
    usage_errors [of "''x''" example_ext "[LFunction 0]" "(example_state, [])" example_poll_state "LUserdata 0"]
    usage_errors [of "''r''" example_ext "[LString ''r'', LFunction 0]" "(example_state, [])" example_poll_state "LInteger 3"]
    example_is_poll_handle
  by (simp add: luv_runmodes_def luv_pollevents_def is_poll_handle_def dangling_def)

section \<open>Properties of the poll handle\<close>

lemma luv_new_poll_failure:
  assumes "uv_poll_init_status ext (L\<lparr>next_handle := Suc (next_handle L)\<rparr>) (c_int k) = status"
    and "status < 0"
  shows "luv_new_poll ext (LInteger k # rest) L =
           (Inr (Failure status (uv_err_name ext status) (uv_strerror ext status)),
            L\<lparr>next_handle := Suc (next_handle L)\<rparr>)"
  using assms
  by (simp add: luv_new_poll_def luaL_checkinteger_def lua_arg_def luv_newuserdata_def
      uv_poll_init_def luv_error_def Let_def)

lemma luv_new_socket_poll_failure:
  assumes "uv_poll_init_socket_status ext (L\<lparr>next_handle := Suc (next_handle L)\<rparr>) (c_int k) = status"
    and "status < 0"
  shows "luv_new_socket_poll ext (LInteger k # rest) L =
           (Inr (Failure status (uv_err_name ext status) (uv_strerror ext status)),
            L\<lparr>next_handle := Suc (next_handle L)\<rparr>)"
  using assms
  by (simp add: luv_new_socket_poll_def luaL_checkinteger_def lua_arg_def luv_newuserdata_def
      uv_poll_init_socket_def luv_error_def Let_def)

lemma luv_new_poll_success:
  assumes "uv_poll_init_status ext (L\<lparr>next_handle := Suc (next_handle L)\<rparr>) (c_int k) = status"
    and "0 \<le> status" and "luv_new_poll ext (LInteger k # rest) L = (res, L')"
  shows "res = Inr (Values [LUserdata (next_handle L)]) \<and> bridged L' (next_handle L)"
  using assms
  by (auto simp: luv_new_poll_def luaL_checkinteger_def lua_arg_def luv_newuserdata_def
      uv_poll_init_def uv_handle_init_def luv_setup_handle_def set_handle_data_def
      metatable_name_def bridged_def is_poll_handle_def luv_find_handle_def Let_def)

lemma luv_new_socket_poll_success:
  assumes "uv_poll_init_socket_status ext (L\<lparr>next_handle := Suc (next_handle L)\<rparr>) (c_int k) = status"
    and "0 \<le> status" and "luv_new_socket_poll ext (LInteger k # rest) L = (res, L')"
  shows "res = Inr (Values [LUserdata (next_handle L)]) \<and> bridged L' (next_handle L)"
  using assms
  by (auto simp: luv_new_socket_poll_def luaL_checkinteger_def lua_arg_def luv_newuserdata_def
      uv_poll_init_socket_def uv_handle_init_def luv_setup_handle_def set_handle_data_def
      metatable_name_def bridged_def is_poll_handle_def luv_find_handle_def Let_def)

text \<open>
  C7. For every descriptor, \<open>luv_new_poll\<close> (raw mode) and \<open>luv_new_socket_poll\<close> (socket
  mode) return the named error of the native init status when that status is negative, and
  then the handle structures, the metatables, the registry and the loop's handle queue are
  as before: only the counter of allocated userdata has advanced. When the status is not
  negative they return the new userdata, which is then registered with the loop, passes
  the poll-handle check, and whose bridge data resolves back to it.
\<close>

theorem luv_new_poll_result:
  assumes "create = (if socket then luv_new_socket_poll else luv_new_poll)"
    and "status = (if socket then uv_poll_init_socket_status else uv_poll_init_status) ext
                    (L\<lparr>next_handle := Suc (next_handle L)\<rparr>) (c_int k)"
    and "create ext [LInteger k] L = (res, L')"
  shows "(status < 0 \<longrightarrow>
            res = Inr (Failure status (uv_err_name ext status) (uv_strerror ext status))
            \<and> L' = L\<lparr>next_handle := Suc (next_handle L)\<rparr>
            \<and> handles L' = handles L \<and> metatable L' = metatable L
            \<and> registry L' = registry L \<and> handle_queue L' = handle_queue L)
       \<and> (0 \<le> status \<longrightarrow>
            res = Inr (Values [LUserdata (next_handle L)]) \<and> bridged L' (next_handle L))"
proof (cases socket)
  case True
  with assms have s: "uv_poll_init_socket_status ext (L\<lparr>next_handle := Suc (next_handle L)\<rparr>) (c_int k) = status"
    and c: "luv_new_socket_poll ext [LInteger k] L = (res, L')"
    by simp_all
  show ?thesis
    using luv_new_socket_poll_failure [OF s, of "[]"] luv_new_socket_poll_success [OF s _ c] c
    by auto
next
  case False
  with assms have s: "uv_poll_init_status ext (L\<lparr>next_handle := Suc (next_handle L)\<rparr>) (c_int k) = status"
    and c: "luv_new_poll ext [LInteger k] L = (res, L')"
    by simp_all
  show ?thesis
    using luv_new_poll_failure [OF s, of "[]"] luv_new_poll_success [OF s _ c] c
    by auto
qed

theorem luv_new_poll_result_witness:
  "luv_new_poll example_ext [LInteger (- 1)] example_state
     = (Inr (Failure (- 9) ''EBADF'' ''bad file descriptor''), example_state\<lparr>next_handle := 1\<rparr>)
   \<and> fst (luv_new_socket_poll example_ext [LInteger 5] example_state) = Inr (Values [LUserdata 0])
   \<and> bridged (snd (luv_new_socket_poll example_ext [LInteger 5] example_state)) 0"
proof -
  have m: "c_int (- 1) = - 1"
    by (simp add: c_int_def)
  have a: "(- 9 :: int) = (if False then uv_poll_init_socket_status else uv_poll_init_status) example_ext
      (example_state\<lparr>next_handle := Suc (next_handle example_state)\<rparr>) (c_int (- 1))"
    by (simp add: m example_ext_def)
  have b: "(0 :: int) = (if True then uv_poll_init_socket_status else uv_poll_init_status) example_ext
      (example_state\<lparr>next_handle := Suc (next_handle example_state)\<rparr>) (c_int 5)"
    by (simp add: c_int_5 example_ext_def)
  show ?thesis
    using luv_new_poll_result [where socket = False and create = luv_new_poll and status = "- 9"
        and ext = example_ext and L = example_state and k = "- 1"
        and res = "fst (luv_new_poll example_ext [LInteger (- 1)] example_state)"
        and L' = "snd (luv_new_poll example_ext [LInteger (- 1)] example_state)", OF _ a]
      luv_new_poll_result [where socket = True and create = luv_new_socket_poll and status = 0
        and ext = example_ext and L = example_state and k = 5
        and res = "fst (luv_new_socket_poll example_ext [LInteger 5] example_state)"
        and L' = "snd (luv_new_socket_poll example_ext [LInteger 5] example_state)", OF _ b]
    by (simp add: example_ext_def example_state_def prod_eq_iff)
qed

lemma is_poll_handle_set_poll:
  "is_poll_handle (set_poll handle a events L) v = is_poll_handle L v"
  by (cases v) (auto simp: is_poll_handle_def set_poll_def split: option.splits)

lemma is_poll_handle_check_callback:
  assumes "luv_check_callback args handle cid index L = Inr L1"
  shows "is_poll_handle L1 v = is_poll_handle L v"
  using assms
  by (cases v) (auto simp: is_poll_handle_def luv_check_callback_def split: option.splits sum.splits if_splits)

lemma luv_poll_start_Inr:
  assumes "luv_poll_start ext (v # rest) L = (Inr res, L1)"
  shows "\<exists>handle. v = LUserdata handle \<and> is_poll_handle L1 v"
proof -
  from assms obtain handle where c: "luv_check_poll L (v # rest) (Suc 0) = Inr handle"
    by (auto simp: luv_poll_start_def split: sum.splits)
  then have v: "v = LUserdata handle" and p: "is_poll_handle L v"
    using luv_check_poll_Inr by blast+
  from assms c obtain L0 where k: "luv_check_callback (v # rest) handle LUV_POLL 3 L = Inr L0"
    and l: "L1 = snd (uv_poll_start ext handle
        (poll_start_events ext (projr (luaL_checkoption ext (v # rest) 2 (Some ''rw'') (luv_pollevents ext)))) L0)"
    by (auto simp: luv_poll_start_def Let_def split: sum.splits prod.splits)
  have "is_poll_handle L0 v"
    using is_poll_handle_check_callback [OF k] p by simp
  then have "is_poll_handle L1 v"
    by (simp add: l uv_poll_start_def Let_def is_poll_handle_set_poll)
  with v show ?thesis by blast
qed

lemma luv_poll_stop_valid:
  assumes "is_poll_handle L (LUserdata handle)"
  shows "luv_poll_stop ext (LUserdata handle # rest) L
           = (Inr (Values [LInteger 0]), set_poll handle False 0 L)"
  using luv_check_poll_valid [OF assms, of rest]
  by (simp add: luv_poll_stop_def uv_poll_stop_def luv_result_def)

lemma set_poll_idem: "set_poll handle a events (set_poll handle a events L) = set_poll handle a events L"
  by (auto simp: set_poll_def split: option.splits)

lemma uv_poll_io_stopped:
  "uv_poll_io ext host handle status events (set_poll handle False 0 L, log)
     = (None, (set_poll handle False 0 L, log))"
  by (auto simp: uv_poll_io_def set_poll_def split: option.splits)

text \<open>
  C8. When a poll handle has been started and then stopped, the stop succeeds with the
  success result 0, a second stop succeeds with the same result and leaves the state as it
  is, and a readiness event that the engine would then deliver for the handle reaches no
  callback: state and log are unchanged.
\<close>

theorem luv_poll_stop_idempotent:
  assumes "luv_poll_start ext (LUserdata handle # rest) L = (Inr res, L1)"
    and "luv_poll_stop ext [LUserdata handle] L1 = (res2, L2)"
  shows "res2 = Inr (Values [LInteger 0])
       \<and> luv_poll_stop ext [LUserdata handle] L2 = (Inr (Values [LInteger 0]), L2)
       \<and> uv_poll_io ext host handle status events (L2, log) = (None, (L2, log))"
proof -
  have p1: "is_poll_handle L1 (LUserdata handle)"
    using luv_poll_start_Inr [OF assms(1)] by simp
  have s1: "res2 = Inr (Values [LInteger 0])" and l2: "L2 = set_poll handle False 0 L1"
    using luv_poll_stop_valid [OF p1, of ext "[]"] assms(2) by simp_all
  have p2: "is_poll_handle L2 (LUserdata handle)"
    using p1 by (simp add: l2 is_poll_handle_set_poll)
  have "luv_poll_stop ext [LUserdata handle] L2 = (Inr (Values [LInteger 0]), L2)"
    using luv_poll_stop_valid [OF p2, of ext "[]"] by (simp add: l2 set_poll_idem)
  moreover have "uv_poll_io ext host handle status events (L2, log) = (None, (L2, log))"
    unfolding l2 by (rule uv_poll_io_stopped)
  ultimately show ?thesis using s1 by simp
qed

theorem luv_poll_stop_idempotent_witness:
  "luv_poll_stop example_ext [LUserdata 0] example_poll_state
     = (Inr (Values [LInteger 0]), set_poll 0 False 0 example_poll_state)
   \<and> luv_poll_stop example_ext [LUserdata 0] (set_poll 0 False 0 example_poll_state)
     = (Inr (Values [LInteger 0]), set_poll 0 False 0 example_poll_state)
   \<and> uv_poll_io example_ext example_host 0 0 3 (set_poll 0 False 0 example_poll_state, [])
     = (None, (set_poll 0 False 0 example_poll_state, []))
   \<and> uv_poll_io example_ext example_host 0 0 3 (example_poll_state, [])
     = (None, (example_poll_state, [Invoke (LFunction 0) [LNil, LString ''rw'']]))"
proof -
  let ?L0 = "snd (luv_new_poll example_ext [LInteger 5] example_state)"
  have a: "luv_poll_start example_ext (LUserdata 0 # [LString ''rw'', LFunction 0]) ?L0
      = (Inr (Values [LInteger 0]), example_poll_state)"
    by (simp add: example_poll_state_def luv_poll_start_def luv_new_poll_def luaL_checkinteger_def
      lua_arg_def c_int_5 luv_newuserdata_def uv_poll_init_def uv_handle_init_def example_ext_def
      example_state_def luv_setup_handle_def set_handle_data_def metatable_name_def luv_check_poll_def
      luv_checkudata_def luaL_checkoption_def luaL_optstring_def luaL_checkstring_def
      lua_isnoneornil_def luv_pollevents_def LUV_UV_VERSION_GEQ_def poll_start_events_def
      luv_check_callback_def luaL_checkfunction_def uv_poll_start_def set_poll_def luv_result_def
      Let_def uv_event_bits)
  have b: "luv_poll_stop example_ext [LUserdata 0] example_poll_state
      = (Inr (Values [LInteger 0]), set_poll 0 False 0 example_poll_state)"
    using luv_poll_stop_valid [OF example_is_poll_handle, of example_ext "[]"] .
  have c: "uv_poll_io example_ext example_host 0 0 3 (example_poll_state, [])
     = (None, (example_poll_state, [Invoke (LFunction 0) [LNil, LString ''rw'']]))"
    by (simp add: uv_poll_io_def example_poll_state_eq example_handle_def luv_poll_cb_def
        example_data_def luv_call_callback_def luv_cfpcall_def example_host_def poll_evtstr_def
        uv_event_bits Let_def)
  show ?thesis
    using luv_poll_stop_idempotent [OF a b, of example_host 0 3 "[]"] b c by simp
qed

lemma luv_check_poll_head:
  "luv_check_poll L (v # a) (Suc 0) = luv_check_poll L (v # b) (Suc 0)"
  by (simp add: luv_check_poll_def luv_checkudata_def lua_arg_def)

lemma checkoption_nil_default:
  "luaL_checkoption ext (v # LNil # rest) 2 (Some d) lst
     = luaL_checkoption ext (v # LString d # rest) 2 (Some d) lst"
  by (simp add: luaL_checkoption_def luaL_optstring_def luaL_checkstring_def lua_isnoneornil_def
      lua_arg_def)

lemma checkoption_none_default:
  "luaL_checkoption ext [v] 2 (Some d) lst = luaL_checkoption ext [v, LString d] 2 (Some d) lst"
  by (simp add: luaL_checkoption_def luaL_optstring_def luaL_checkstring_def lua_isnoneornil_def
      lua_arg_def)

lemma check_callback_third:
  "luv_check_callback (v # a # rest) handle cid 3 L = luv_check_callback (v # b # rest) handle cid 3 L"
  by (simp add: luv_check_callback_def luaL_checkfunction_def lua_arg_def)

lemma check_callback_missing:
  "luv_check_callback [v] handle cid 3 L = luv_check_callback [v, b] handle cid 3 L"
  by (simp add: luv_check_callback_def luaL_checkfunction_def lua_arg_def)

lemma checkoption_rw:
  "luaL_checkoption ext (v # LNil # rest) 2 (Some ''rw'') (luv_pollevents ext) = Inr 2"
  by (simp add: luaL_checkoption_def luaL_optstring_def lua_isnoneornil_def lua_arg_def
      luv_pollevents_def)

lemma check_callback_handles:
  assumes "luv_check_callback args handle cid index L = Inr L0"
  shows "\<exists>h. handles L0 handle = Some h"
  using assms by (auto simp: luv_check_callback_def split: sum.splits option.splits)

lemma set_poll_handles:
  assumes "handles L handle = Some h0"
  shows "\<exists>h. handles (set_poll handle a events L) handle = Some h \<and> poll_active h = a
           \<and> poll_events h = events"
  using assms by (simp add: set_poll_def)

text \<open>
  C10. \<open>luv_poll_start\<close> called with the event-mask argument nil or absent does what it
  does when called with the mask \<open>rw\<close>; when such a call succeeds, the handle is active
  and monitors readable and writable.
\<close>

theorem luv_poll_start_default_mask:
  "luv_poll_start ext (v # LNil # rest) L = luv_poll_start ext (v # LString ''rw'' # rest) L
   \<and> luv_poll_start ext [v] L = luv_poll_start ext [v, LString ''rw''] L
   \<and> (luv_poll_start ext (LUserdata handle # LNil # rest) L = (Inr (Values [LInteger status]), L1) \<longrightarrow>
        (\<exists>h. handles L1 handle = Some h \<and> poll_active h
              \<and> poll_events h = UV_READABLE OR UV_WRITABLE))"
proof (intro conjI impI)
  show "luv_poll_start ext (v # LNil # rest) L = luv_poll_start ext (v # LString ''rw'' # rest) L"
    by (simp add: luv_poll_start_def checkoption_nil_default
        luv_check_poll_head [of L v "LNil # rest" "LString ''rw'' # rest"]
        check_callback_third [of v LNil rest _ _ L "LString ''rw''"] cong: sum.case_cong)
next
  show "luv_poll_start ext [v] L = luv_poll_start ext [v, LString ''rw''] L"
    by (simp add: luv_poll_start_def checkoption_none_default
        luv_check_poll_head [of L v "[]" "[LString ''rw'']"]
        check_callback_missing [of v _ _ L "LString ''rw''"] cong: sum.case_cong)
next
  assume a: "luv_poll_start ext (LUserdata handle # LNil # rest) L = (Inr (Values [LInteger status]), L1)"
  then obtain h' where c: "luv_check_poll L (LUserdata handle # LNil # rest) (Suc 0) = Inr h'"
    by (auto simp: luv_poll_start_def split: sum.splits)
  then have hh: "h' = handle"
    using luv_check_poll_Inr [OF c] by simp
  from a c hh obtain L0 where k: "luv_check_callback (LUserdata handle # LNil # rest) handle LUV_POLL 3 L = Inr L0"
    and r: "uv_poll_start ext handle (poll_start_events ext 2) L0 = (status, L1) \<and> 0 \<le> status"
    by (auto simp: luv_poll_start_def checkoption_rw luv_result_def luv_error_def Let_def
        split: sum.splits prod.splits if_splits)
  obtain h0 where "handles L0 handle = Some h0"
    using check_callback_handles [OF k] by blast
  then obtain h where "handles (set_poll handle (3 \<noteq> (0::int)) 3 L0) handle = Some h"
    and "poll_active h = (3 \<noteq> (0::int))" and "poll_events h = 3"
    using set_poll_handles by blast
  moreover have "L1 = set_poll handle (3 \<noteq> (0::int)) 3 L0"
    using r by (auto simp: uv_poll_start_def poll_start_events_def uv_event_bits Let_def
        split: if_splits)
  ultimately show "\<exists>h. handles L1 handle = Some h \<and> poll_active h
      \<and> poll_events h = UV_READABLE OR UV_WRITABLE"
    by (auto simp: uv_event_bits)
qed

theorem luv_poll_start_default_mask_witness:
  "luv_poll_start example_ext [LUserdata 0, LNil, LFunction 0]
       (snd (luv_new_poll example_ext [LInteger 5] example_state))
     = (Inr (Values [LInteger 0]), example_poll_state)
   \<and> (\<exists>h. handles example_poll_state 0 = Some h \<and> poll_active h
           \<and> poll_events h = UV_READABLE OR UV_WRITABLE)"
proof -
  let ?L0 = "snd (luv_new_poll example_ext [LInteger 5] example_state)"
  have a: "luv_poll_start example_ext (LUserdata 0 # LString ''rw'' # [LFunction 0]) ?L0
      = (Inr (Values [LInteger 0]), example_poll_state)"
    by (simp add: example_poll_state_def luv_poll_start_def luv_new_poll_def luaL_checkinteger_def
      lua_arg_def c_int_5 luv_newuserdata_def uv_poll_init_def uv_handle_init_def example_ext_def
      example_state_def luv_setup_handle_def set_handle_data_def metatable_name_def luv_check_poll_def
      luv_checkudata_def luaL_checkoption_def luaL_optstring_def luaL_checkstring_def
      lua_isnoneornil_def luv_pollevents_def LUV_UV_VERSION_GEQ_def poll_start_events_def
      luv_check_callback_def luaL_checkfunction_def uv_poll_start_def set_poll_def luv_result_def
      Let_def uv_event_bits)
  show ?thesis
    using luv_poll_start_default_mask [of example_ext "LUserdata 0" "[LFunction 0]" ?L0 0 0 example_poll_state] a
    by simp
qed

section \<open>Properties of the walk\<close>

lemma luv_walk_cb_step:
  assumes "resolve L handle = Some v" and "host f [v] L = (res, L')"
  shows "luv_walk_cb host (LFunction f) handle (L, log) =
           (None, (L', log @ Invoke (LFunction f) [v] # (case res of None \<Rightarrow> [] | Some msg \<Rightarrow> [Report msg])))"
  using assms
  by (cases res)
    (auto simp: luv_walk_cb_def resolve_def luv_cfpcall_def split: option.splits if_splits)

lemma resolve_set_poll: "resolve (set_poll h a events L) handle = resolve L handle"
  by (auto simp: resolve_def set_poll_def luv_find_handle_def split: option.splits)

lemma resolve_luv_poll_stop: "resolve (snd (luv_poll_stop ext args L)) handle = resolve L handle"
  by (auto simp: luv_poll_stop_def uv_poll_stop_def resolve_set_poll Let_def split: sum.splits)

lemma example_walk_state_eq:
  "example_walk_state =
     \<lparr>ctx_mode = - 1, handle_queue = [0, 1],
      handles = [0 \<mapsto> example_handle,
                 1 \<mapsto> \<lparr>handle_type = UV_POLL,
                         handle_data = Some \<lparr>ref = 2, callbacks = (\<lambda>cid. None)\<rparr>,
                         poll_active = False, poll_events = 0, handle_closing = False\<rparr>],
      metatable = [0 \<mapsto> ''uv_poll'', 1 \<mapsto> ''uv_poll''],
      registry = [1 \<mapsto> LUserdata 0, 2 \<mapsto> LUserdata 1], next_handle = 2, next_ref = 3\<rparr>"
proof -
  have "c_int 6 = 6" by (simp add: c_int_def)
  then show ?thesis
    by (simp add: example_walk_state_def example_poll_state_eq luv_new_poll_def luaL_checkinteger_def
        lua_arg_def luv_newuserdata_def uv_poll_init_def uv_handle_init_def example_ext_def
        luv_setup_handle_def set_handle_data_def metatable_name_def Let_def)
qed

lemma uv_walk_queue_spec:
  "walk_safe host f q L \<Longrightarrow>
   uv_walk_queue (luv_walk_cb host (LFunction f)) q (L, log) =
     (None, (walk_state host f q L, log @ concat (map (visit_events f) (walk_visits host f q L))))"
proof (induction q arbitrary: L log)
  case Nil
  then show ?case by simp
next
  case (Cons handle q)
  then obtain v where v: "resolve L handle = Some v"
    by (auto split: option.splits)
  obtain res L' where h: "host f [v] L = (res, L')" by (cases "host f [v] L")
  have safe: "walk_safe host f q L'"
    using Cons.prems v h by simp
  have step: "luv_walk_cb host (LFunction f) handle (L, log) =
      (None, (L', log @ Invoke (LFunction f) [v] # (case res of None \<Rightarrow> [] | Some msg \<Rightarrow> [Report msg])))"
    using luv_walk_cb_step [where host = host and f = f and L = L and handle = handle and v = v
        and res = res and L' = L' and log = log] v h by simp
  show ?case
    using Cons.IH [OF safe, of "log @ Invoke (LFunction f) [v] # (case res of None \<Rightarrow> [] | Some msg \<Rightarrow> [Report msg])"]
    by (simp add: step v h visit_events_def)
qed

lemma walk_safe_stable:
  assumes "\<And>S v x. x \<in> H \<Longrightarrow> resolve (snd (host f [v] S)) x = resolve S x"
  shows "set q \<subseteq> H \<Longrightarrow> \<forall>x\<in>set q. resolve L x \<noteq> None \<Longrightarrow> walk_safe host f q L"
proof (induction q arbitrary: L)
  case Nil
  then show ?case by simp
next
  case (Cons handle q)
  then obtain v where v: "resolve L handle = Some v" by auto
  have "\<forall>x\<in>set q. resolve (snd (host f [v] L)) x \<noteq> None"
    using Cons.prems assms by (auto simp: subset_iff)
  then have "walk_safe host f q (snd (host f [v] L))"
    using Cons.IH Cons.prems(1) by simp
  then show ?case by (simp add: v)
qed

lemma walk_visits_handles: "walk_safe host f q L \<Longrightarrow> map fst (walk_visits host f q L) = q"
  by (induction q arbitrary: L) (auto split: option.splits)

lemma visit_events_invoke: "filter is_invoke (visit_events f v) = [Invoke (LFunction f) [fst (snd v)]]"
  by (cases "snd (snd v)") (simp_all add: visit_events_def)

text \<open>
  C1. When the bridge of every registered handle is intact at the moment the walk reaches
  it (as it is when the callbacks stop or close handles, or raise), \<open>luv_walk\<close> called with
  a host callback returns normally. The callback has then been run through the protected
  call exactly once per registered handle, in the queue's order, each time with the
  handle's wrapper: the state left is the state that these runs leave one after the other,
  and the log has grown by one invocation per handle, each followed by a report when the
  callback raised. An error raised at one handle is caught there, and the walk goes on to
  the handles after it.
\<close>

theorem luv_walk_runs_callbacks:
  assumes "walk_safe host f (handle_queue L) L"
  shows "luv_walk host [LFunction f] (L, log) =
           (Inr (Values []),
            (walk_state host f (handle_queue L) L,
             log @ concat (map (visit_events f) (walk_visits host f (handle_queue L) L))))
       \<and> map fst (walk_visits host f (handle_queue L) L) = handle_queue L
       \<and> (\<forall>v\<in>set (walk_visits host f (handle_queue L) L).
             filter is_invoke (visit_events f v) = [Invoke (LFunction f) [fst (snd v)]])"
  using uv_walk_queue_spec [OF assms, of log] walk_visits_handles [OF assms]
  by (simp add: luv_walk_def uv_walk_def luaL_checkfunction_def lua_arg_def visit_events_invoke)

lemma resolve_uv_close: "resolve (uv_close h L) handle = resolve L handle"
  by (auto simp: resolve_def uv_close_def luv_find_handle_def split: option.splits)

lemma example_walk_poll_handles:
  "is_poll_handle example_walk_state (LUserdata 0)"
  "is_poll_handle example_walk_state (LUserdata (Suc 0))"
  by (simp_all add: is_poll_handle_def example_walk_state_eq example_handle_def)

lemma example_walk_resolve:
  "resolve example_walk_state 0 = Some (LUserdata 0)"
  "resolve example_walk_state (Suc 0) = Some (LUserdata (Suc 0))"
  by (simp_all add: resolve_def example_walk_state_eq example_handle_def example_data_def
      luv_find_handle_def)

lemma example_host_stop:
  "is_poll_handle L (LUserdata handle) \<Longrightarrow>
   example_host (Suc 0) [LUserdata handle] L = (Some ''callback failed'', set_poll handle False 0 L)"
  using luv_poll_stop_valid [of L handle example_ext "[]"] by (simp add: example_host_def)

lemma example_host_close: "example_host 2 [LUserdata handle] L = (None, uv_close handle L)"
  by (simp add: example_host_def)

theorem luv_walk_runs_callbacks_witness:
  "luv_walk example_host [LFunction 1] (example_walk_state, []) =
     (Inr (Values []),
      (set_poll 1 False 0 (set_poll 0 False 0 example_walk_state),
       [Invoke (LFunction 1) [LUserdata 0], Report ''callback failed'',
        Invoke (LFunction 1) [LUserdata 1], Report ''callback failed'']))
   \<and> luv_walk example_host [LFunction 2] (example_walk_state, []) =
     (Inr (Values []),
      (uv_close 1 (uv_close 0 example_walk_state),
       [Invoke (LFunction 2) [LUserdata 0], Invoke (LFunction 2) [LUserdata 1]]))"
proof -
  have q: "handle_queue example_walk_state = [0, 1]"
    by (simp add: example_walk_state_eq)
  have p: "is_poll_handle (set_poll 0 False 0 example_walk_state) (LUserdata (Suc 0))"
    by (simp add: is_poll_handle_set_poll example_walk_poll_handles)
  have s1: "walk_safe example_host 1 (handle_queue example_walk_state) example_walk_state"
    by (simp add: q example_walk_resolve example_walk_poll_handles p example_host_stop resolve_set_poll)
  have s2: "walk_safe example_host 2 (handle_queue example_walk_state) example_walk_state"
    by (simp add: q example_walk_resolve example_host_close resolve_uv_close)
  show ?thesis
    using luv_walk_runs_callbacks [where host = example_host and f = 1 and L = example_walk_state
        and log = "[]", OF s1]
      luv_walk_runs_callbacks [where host = example_host and f = 2 and L = example_walk_state
        and log = "[]", OF s2]
    by (simp add: q example_walk_resolve example_walk_poll_handles p example_host_stop
        example_host_close resolve_set_poll resolve_uv_close visit_events_def)
qed

section \<open>Properties of the backend queries\<close>

text \<open>
  C9, as amended. \<open>luv_backend_fd\<close> returns nil exactly when the native query returns -1
  and the native descriptor as an integer otherwise; \<open>luv_backend_timeout\<close> returns the
  timeout that the engine computes as an integer and unchanged, so it returns -1, no
  timeout, exactly when the engine computes -1. The binding has no rule of its own for a
  loop with no active watch: there too it returns what the engine computes.
\<close>

theorem luv_backend_queries:
  "luv_backend_fd ext L =
     (if uv_backend_fd ext L = - 1 then Values [LNil] else Values [LInteger (uv_backend_fd ext L)])
   \<and> (luv_backend_fd ext L = Values [LNil]) = (uv_backend_fd ext L = - 1)
   \<and> luv_backend_timeout ext L = Values [LInteger (uv_backend_timeout ext L)]
   \<and> (luv_backend_timeout ext L = Values [LInteger (- 1)]) = (uv_backend_timeout ext L = - 1)"
  by (simp add: luv_backend_fd_def luv_backend_timeout_def)

lemma example_poll_state_active: "has_active_handle example_poll_state"
  by (simp add: has_active_handle_def example_poll_state_eq example_handle_def)

lemma example_new_poll_state:
  "snd (luv_new_poll example_ext [LInteger 5] example_state) =
     \<lparr>ctx_mode = - 1, handle_queue = [0],
      handles = [0 \<mapsto> \<lparr>handle_type = UV_POLL,
                         handle_data = Some \<lparr>ref = 1, callbacks = (\<lambda>cid. None)\<rparr>,
                         poll_active = False, poll_events = 0, handle_closing = False\<rparr>],
      metatable = [0 \<mapsto> ''uv_poll''], registry = [1 \<mapsto> LUserdata 0],
      next_handle = 1, next_ref = 2\<rparr>"
  by (simp add: luv_new_poll_def luaL_checkinteger_def lua_arg_def c_int_5 luv_newuserdata_def
      uv_poll_init_def uv_handle_init_def example_ext_def example_state_def luv_setup_handle_def
      set_handle_data_def metatable_name_def Let_def)

theorem luv_backend_queries_witness:
  "luv_backend_fd example_ext example_state = Values [LNil]
   \<and> luv_backend_fd example_ext example_poll_state = Values [LInteger 3]
   \<and> luv_backend_timeout example_ext example_poll_state = Values [LInteger (- 1)]"
proof -
  have f0: "uv_backend_fd example_ext example_state = - 1"
    by (simp add: example_ext_def example_state_def)
  have f1: "uv_backend_fd example_ext example_poll_state = 3"
    by (simp add: example_ext_def example_poll_state_eq)
  have t: "uv_backend_timeout example_ext example_poll_state = - 1"
    using example_poll_state_active by (simp add: example_ext_def)
  show ?thesis
    using luv_backend_queries [of example_ext example_state]
      luv_backend_queries [of example_ext example_poll_state]
    by (simp add: f0 f1 t)
qed

text \<open>
  The claim as stated fails: right after a poll handle is registered, with no watch
  active, the engine computes the timeout 0 and \<open>luv_backend_timeout\<close> returns 0, not -1.
\<close>

theorem luv_backend_timeout_counterexample:
  "handle_queue (snd (luv_new_poll example_ext [LInteger 5] example_state)) = [0]
   \<and> \<not> has_active_handle (snd (luv_new_poll example_ext [LInteger 5] example_state))
   \<and> luv_backend_timeout example_ext (snd (luv_new_poll example_ext [LInteger 5] example_state))
       = Values [LInteger 0]
   \<and> Values [LInteger 0] \<noteq> Values [LInteger (- 1)]"
proof -
  have q: "handle_queue (snd (luv_new_poll example_ext [LInteger 5] example_state)) = [0]"
    by (simp add: example_new_poll_state)
  have a: "\<not> has_active_handle (snd (luv_new_poll example_ext [LInteger 5] example_state))"
    by (simp add: example_new_poll_state has_active_handle_def)
  have t: "uv_backend_timeout example_ext (snd (luv_new_poll example_ext [LInteger 5] example_state))
      = (if has_active_handle (snd (luv_new_poll example_ext [LInteger 5] example_state)) then - 1 else 0)"
    by (simp add: example_ext_def)
  have "luv_backend_timeout example_ext (snd (luv_new_poll example_ext [LInteger 5] example_state))
      = Values [LInteger 0]"
    using a by (simp add: luv_backend_timeout_def t)
  with q a show ?thesis by simp
qed

end
